theory Spec2Isabelle
  imports Main "HOL-Library.AList"
begin

section \<open>Python values and their string form\<close>

text \<open>
  The values that occur as field defaults and as metadata entries.  \<open>REQUIRED_ARG\<close> is the
  class object of \<^verbatim>\<open>class REQUIRED_ARG\<close> (the code compares with \<^verbatim>\<open>is\<close>), \<open>MISSING\<close> is
  \<^verbatim>\<open>dataclasses.MISSING\<close>, and \<open>VObj s\<close> is any other object, given by the text that
  \<^verbatim>\<open>str\<close> and \<^verbatim>\<open>repr\<close> return for it.  Strings are ASCII.
\<close>

datatype py_value =
    VNone
  | VBool bool
  | VInt int
  | VStr string
  | VList "py_value list"
  | REQUIRED_ARG
  | MISSING
  | VObj string

fun str_nat :: "nat \<Rightarrow> string" where
  "str_nat n =
     (if n < 10 then [''0123456789'' ! n]
      else str_nat (n div 10) @ [''0123456789'' ! (n mod 10)])"

declare str_nat.simps [simp del]

definition str_int :: "int \<Rightarrow> string" where
  "str_int i = (if i < 0 then CHR ''-'' # str_nat (nat (- i)) else str_nat (nat i))"

definition hex2 :: "nat \<Rightarrow> string" where
  "hex2 n = [''0123456789abcdef'' ! ((n div 16) mod 16), ''0123456789abcdef'' ! (n mod 16)]"

text \<open>\<^verbatim>\<open>repr\<close> of one character of a string that is quoted with \<open>q\<close>.\<close>

definition repr_char :: "char \<Rightarrow> char \<Rightarrow> string" where
  "repr_char q c =
     (if c = q \<or> c = CHR 0x5C then [CHR 0x5C, c]
      else if c = CHR 0x09 then [CHR 0x5C, CHR ''t'']
      else if c = CHR 0x0A then [CHR 0x5C, CHR ''n'']
      else if c = CHR 0x0D then [CHR 0x5C, CHR ''r'']
      else if (of_char c :: nat) < 32 \<or> (of_char c :: nat) = 127
        then [CHR 0x5C, CHR ''x''] @ hex2 (of_char c)
      else [c])"

definition repr_str :: "string \<Rightarrow> string" where
  "repr_str s =
     (let q = (if CHR 0x27 \<in> set s \<and> CHR 0x22 \<notin> set s then CHR 0x22 else CHR 0x27)
      in q # concat (map (repr_char q) s) @ [q])"

fun join :: "string \<Rightarrow> string list \<Rightarrow> string" where
  "join sep [] = []"
| "join sep [x] = x"
| "join sep (x # y # ys) = x @ sep @ join sep (y # ys)"

fun py_repr :: "py_value \<Rightarrow> string" where
  "py_repr VNone = ''None''"
| "py_repr (VBool b) = (if b then ''True'' else ''False'')"
| "py_repr (VInt i) = str_int i"
| "py_repr (VStr s) = repr_str s"
| "py_repr (VList vs) = ''['' @ join '', '' (map py_repr vs) @ '']''"
| "py_repr REQUIRED_ARG = ''<class '' @ [CHR 0x27] @ ''typed_argparse.REQUIRED_ARG'' @ [CHR 0x27] @ ''>''"
| "py_repr MISSING = ''<dataclasses._MISSING_TYPE object>''"
| "py_repr (VObj s) = s"

text \<open>
  \<^verbatim>\<open>str(v)\<close>, which is also what an f-string field \<^verbatim>\<open>{v}\<close> inserts.  CPython prints the
  address of \<open>MISSING\<close> after the word \<^verbatim>\<open>object\<close>; it changes from run to run and is
  left out.
\<close>

definition py_str :: "py_value \<Rightarrow> string" where
  "py_str v = (case v of VStr s \<Rightarrow> s | _ \<Rightarrow> py_repr v)"

text \<open>\<^verbatim>\<open>isinstance(v, bool)\<close>.\<close>

definition is_bool :: "py_value \<Rightarrow> bool" where
  "is_bool v = (case v of VBool _ \<Rightarrow> True | _ \<Rightarrow> False)"

text \<open>\<^verbatim>\<open>s.replace(old, new)\<close>: every non-overlapping occurrence, from the left.\<close>

function replace :: "string \<Rightarrow> string \<Rightarrow> string \<Rightarrow> string" where
  "replace old new [] = (if old = [] then new else [])"
| "replace old new (c # cs) =
     (if old = [] then new @ c # replace old new cs
      else if take (length old) (c # cs) = old
        then new @ replace old new (drop (length old) (c # cs))
      else c # replace old new cs)"
  by pat_completeness auto
termination
  by (relation "measure (\<lambda>(old, new, s). length s)") auto

section \<open>Type annotations\<close>

text \<open>
  The origin of a parameterised annotation, as \<^verbatim>\<open>typing.get_origin\<close> returns it: the three
  origins the code compares with (\<^verbatim>\<open>list\<close>, \<^verbatim>\<open>NonEmptyList\<close>, \<^verbatim>\<open>List\<close>), \<^verbatim>\<open>ClassVar\<close>, and
  any other origin by name (\<^verbatim>\<open>dict\<close>, \<^verbatim>\<open>tuple\<close>, \<^verbatim>\<open>Union\<close>, ...).  The substitutes that the
  module defines for a Python without \<^verbatim>\<open>typing.get_origin\<close> are not modelled.
\<close>

datatype origin =
    Origin_list
  | Origin_NonEmptyList
  | Origin_List
  | Origin_ClassVar
  | Origin_other string

text \<open>
  An annotation is a plain class (\<^verbatim>\<open>int\<close>, \<^verbatim>\<open>str\<close>, \<^verbatim>\<open>bool\<close>, a user class), an
  unparameterised special form of \<^verbatim>\<open>typing\<close> (\<^verbatim>\<open>ClassVar\<close>, \<^verbatim>\<open>Any\<close>), a parameterised
  form with its origin and its arguments, or \<^verbatim>\<open>dataclasses.InitVar\<close>, bare or with its
  argument, which is no generic alias: it has no origin and no arguments.  All of them are
  callable objects.
\<close>

datatype py_type =
    Class string
  | SpecialForm string
  | Generic origin "py_type list"
  | InitVar "py_type option"

fun get_origin :: "py_type \<Rightarrow> origin option" where
  "get_origin (Generic org args) = Some org"
| "get_origin _ = None"

fun get_args :: "py_type \<Rightarrow> py_type list" where
  "get_args (Generic org args) = args"
| "get_args _ = []"

section \<open>Failures\<close>

text \<open>
  The exceptions that parser construction and parsing can raise.  \<open>ArgumentError\<close> carries
  the conflicting option strings, \<open>SystemExit\<close> is the usage error of the parsing engine,
  and \<open>Raised n\<close> is any other exception, by name.
\<close>

datatype py_error =
    TypeError
  | KeyError
  | ValueError
  | NotImplementedError_type py_type
  | NotImplementedError_origin origin
  | ArgumentError "string list"
  | SystemExit
  | Raised string

section \<open>Dataclass fields and classes\<close>

text \<open>
  A default factory is \<open>NoFactory\<close> (the field's \<^verbatim>\<open>default_factory\<close> is \<open>MISSING\<close>) or a
  callable, given by what calling it with no argument does: raise or return.
\<close>

datatype factory = NoFactory | Factory "py_error + py_value"

record field =
  field_name :: string
  field_type :: py_type
  field_default :: py_value
  field_default_factory :: factory
  field_metadata :: "(string \<times> py_value) list"

text \<open>
  A class: its name, its direct bases (\<^verbatim>\<open>__bases__\<close>) and the entries of
  \<^verbatim>\<open>__dataclass_fields__\<close> in order, as the dataclass decorator computed them
  (inherited entries included, pseudo-fields for class variables included).
\<close>

datatype py_class = PyClass (cls_name: string) (cls_bases: "py_class list") (cls_fields: "field list")

definition object :: py_class where
  "object = PyClass ''object'' [] []"

definition TypedNamespace :: py_class where
  "TypedNamespace = PyClass ''TypedNamespace'' [object] []"

text \<open>\<^verbatim>\<open>issubclass(c, d)\<close>: \<open>c\<close> is \<open>d\<close> or one of its bases is a subclass of \<open>d\<close>.\<close>

fun issubclass :: "py_class \<Rightarrow> py_class \<Rightarrow> bool" where
  "issubclass (PyClass n bs fs) d =
     (PyClass n bs fs = d \<or> (\<exists>b \<in> set bs. issubclass b d))"

text \<open>
  \<^verbatim>\<open>dataclasses.fields(cls)\<close> returns the true fields only: an entry annotated with
  \<^verbatim>\<open>ClassVar\<close> or with \<^verbatim>\<open>InitVar\<close>, bare or parameterised, is a pseudo-field and is left
  out.
\<close>

definition is_classvar :: "py_type \<Rightarrow> bool" where
  "is_classvar t = (t = SpecialForm ''ClassVar'' \<or> get_origin t = Some Origin_ClassVar)"

definition is_initvar :: "py_type \<Rightarrow> bool" where
  "is_initvar t = (case t of InitVar _ \<Rightarrow> True | _ \<Rightarrow> False)"

definition is_pseudo_field :: "py_type \<Rightarrow> bool" where
  "is_pseudo_field t = (is_classvar t \<or> is_initvar t)"

definition dataclasses_fields :: "py_class \<Rightarrow> field list" where
  "dataclasses_fields cls = filter (\<lambda>f. \<not> is_pseudo_field (field_type f)) (cls_fields cls)"

text \<open>\<^verbatim>\<open>field.metadata.get(key, "")\<close>.\<close>

definition metadata_get :: "(string \<times> py_value) list \<Rightarrow> string \<Rightarrow> py_value" where
  "metadata_get md k = (case map_of md k of None \<Rightarrow> VStr [] | Some v \<Rightarrow> v)"

section \<open>The parsing engine, as far as the adapter configures it\<close>

text \<open>
  The keyword arguments that \<open>get_parser\<close> passes to \<^verbatim>\<open>add_argument\<close>: a dictionary with
  the keys \<^verbatim>\<open>help\<close>, \<^verbatim>\<open>metavar\<close>, \<^verbatim>\<open>type\<close>, \<^verbatim>\<open>nargs\<close>, \<^verbatim>\<open>required\<close> and \<^verbatim>\<open>action\<close>, each of
  them present or not.  The code passes only three action names.
\<close>

datatype action_name = Store_true | Store_false | Help

record kwargs =
  kw_help :: "string option"
  kw_metavar :: "string option"
  kw_type :: "py_type option"
  kw_nargs :: "string option"
  kw_required :: "bool option"
  kw_action :: "action_name option"

definition no_kwargs :: kwargs where
  "no_kwargs = \<lparr>kw_help = None, kw_metavar = None, kw_type = None, kw_nargs = None,
     kw_required = None, kw_action = None\<rparr>"

text \<open>
  An action object of \<^verbatim>\<open>argparse\<close> (one registered flag) with the attributes that the
  keyword arguments determine.
\<close>

datatype action_class = StoreAction | StoreTrueAction | StoreFalseAction | HelpAction

datatype nargs = Nargs_int nat | Nargs_str string

datatype action_default = Default py_value | SUPPRESS

record action =
  act_option_strings :: "string list"
  act_dest :: string
  act_class :: action_class
  act_nargs :: "nargs option"
  act_type :: "py_type option"
  act_required :: bool
  act_help :: "string option"
  act_metavar :: "string option"
  act_default :: action_default

text \<open>
  \<^verbatim>\<open>_get_optional_kwargs\<close>: the destination is inferred from the first long option string
  (or the first option string when none is long), stripped of its leading dashes, with
  every other dash replaced by an underscore; an empty destination is a \<open>ValueError\<close>.
\<close>

definition infer_dest :: "string list \<Rightarrow> py_error + string" where
  "infer_dest flags =
     (let long_option_strings = filter (\<lambda>s. length s > 1 \<and> s ! 1 = CHR ''-'') flags in
      case (if long_option_strings \<noteq> [] then long_option_strings else flags) of
        [] \<Rightarrow> Inl ValueError
      | dest_option_string # _ \<Rightarrow>
          (let dest = dropWhile (\<lambda>c. c = CHR ''-'') dest_option_string in
           if dest = [] then Inl ValueError
           else Inr (map (\<lambda>c. if c = CHR ''-'' then CHR ''_'' else c) dest)))"

text \<open>
  Creating the action object.  Without an action name the class is \<^verbatim>\<open>_StoreAction\<close>.  The
  constructors of \<^verbatim>\<open>_StoreTrueAction\<close>, \<^verbatim>\<open>_StoreFalseAction\<close> and \<^verbatim>\<open>_HelpAction\<close> have no
  parameter \<^verbatim>\<open>nargs\<close>, \<^verbatim>\<open>metavar\<close> or \<^verbatim>\<open>type\<close> (and \<^verbatim>\<open>_HelpAction\<close> none for \<^verbatim>\<open>required\<close>):
  such a keyword is a \<open>TypeError\<close>.
\<close>

definition make_action :: "string list \<Rightarrow> kwargs \<Rightarrow> py_error + action" where
  "make_action flags kw =
     (case infer_dest flags of
        Inl e \<Rightarrow> Inl e
      | Inr d \<Rightarrow>
         (case kw_action kw of
            None \<Rightarrow>
              Inr \<lparr>act_option_strings = flags, act_dest = d, act_class = StoreAction,
                   act_nargs = map_option Nargs_str (kw_nargs kw), act_type = kw_type kw,
                   act_required = (kw_required kw = Some True), act_help = kw_help kw,
                   act_metavar = kw_metavar kw, act_default = Default VNone\<rparr>
          | Some Help \<Rightarrow>
              if kw_nargs kw \<noteq> None \<or> kw_metavar kw \<noteq> None \<or> kw_type kw \<noteq> None
                 \<or> kw_required kw \<noteq> None
              then Inl TypeError
              else Inr \<lparr>act_option_strings = flags, act_dest = d, act_class = HelpAction,
                   act_nargs = Some (Nargs_int 0), act_type = None,
                   act_required = False, act_help = kw_help kw,
                   act_metavar = None, act_default = SUPPRESS\<rparr>
          | Some toggle \<Rightarrow>
              if kw_nargs kw \<noteq> None \<or> kw_metavar kw \<noteq> None \<or> kw_type kw \<noteq> None
              then Inl TypeError
              else Inr \<lparr>act_option_strings = flags, act_dest = d,
                   act_class = (if toggle = Store_true then StoreTrueAction else StoreFalseAction),
                   act_nargs = Some (Nargs_int 0), act_type = None,
                   act_required = (kw_required kw = Some True), act_help = kw_help kw,
                   act_metavar = None,
                   act_default = Default (VBool (toggle \<noteq> Store_true))\<rparr>))"

text \<open>
  A parser: the class it is bound to, its actions in registration order (\<^verbatim>\<open>_actions\<close>) and
  its argument groups (\<^verbatim>\<open>_action_groups\<close>), each a title with the actions of the group.
  Every parser starts with the two groups of \<^verbatim>\<open>argparse\<close>; an action with option strings
  that is added to the parser itself goes to the second one.
\<close>

record parser =
  name_space_class :: py_class
  actions :: "action list"
  action_groups :: "(string \<times> action list) list"

datatype container = Parser_itself | Group nat

definition group_index :: "container \<Rightarrow> nat" where
  "group_index c = (case c of Parser_itself \<Rightarrow> 1 | Group i \<Rightarrow> i)"

definition option_strings_of :: "parser \<Rightarrow> string list" where
  "option_strings_of p = concat (map act_option_strings (actions p))"

definition add_argument_group :: "string \<Rightarrow> parser \<Rightarrow> container \<times> parser" where
  "add_argument_group title p =
     (Group (length (action_groups p)), p\<lparr>action_groups := action_groups p @ [(title, [])]\<rparr>)"

text \<open>
  \<^verbatim>\<open>_add_action\<close>: an option string that the parser has already is a conflict (the conflict
  handler is \<^verbatim>\<open>error\<close>); otherwise the action is appended to the parser and to its group.
\<close>

definition add_action :: "container \<Rightarrow> action \<Rightarrow> parser \<Rightarrow> py_error + parser" where
  "add_action c a p =
     (let confl = filter (\<lambda>s. s \<in> set (option_strings_of p)) (act_option_strings a);
          i = group_index c in
      if confl \<noteq> [] then Inl (ArgumentError confl)
      else Inr (p\<lparr>actions := actions p @ [a],
                  action_groups := (action_groups p)
                    [i := (fst (action_groups p ! i), snd (action_groups p ! i) @ [a])]\<rparr>))"

definition add_argument :: "container \<Rightarrow> string list \<Rightarrow> kwargs \<Rightarrow> parser \<Rightarrow> py_error + parser" where
  "add_argument c flags kw p =
     (case make_action flags kw of Inl e \<Rightarrow> Inl e | Inr a \<Rightarrow> add_action c a p)"

text \<open>The call that registers the standard help flag, the same at its three places.\<close>

definition help_kwargs :: kwargs where
  "help_kwargs = no_kwargs\<lparr>kw_action := Some Help,
     kw_help := Some ''show this help message and exit''\<rparr>"

definition add_help_argument :: "container \<Rightarrow> parser \<Rightarrow> py_error + parser" where
  "add_help_argument c p = add_argument c [''-h'', ''--help''] help_kwargs p"

text \<open>
  \<^verbatim>\<open>_add_container_actions\<close>, which the constructor runs for every parent parser: each group
  of the parent is matched by title with a group of the new parser, or created there; then
  every action of the parent is added to the group that matches its own.
\<close>

definition index_of_title :: "string \<Rightarrow> (string \<times> action list) list \<Rightarrow> nat" where
  "index_of_title t gs = length (takeWhile (\<lambda>g. fst g \<noteq> t) gs)"

definition merge_group :: "string \<times> action list \<Rightarrow> parser \<Rightarrow> parser" where
  "merge_group g p =
     (if fst g \<in> set (map fst (action_groups p)) then p
      else snd (add_argument_group (fst g) p))"

definition group_of_action :: "parser \<Rightarrow> parser \<Rightarrow> action \<Rightarrow> container" where
  "group_of_action container self a =
     (case find (\<lambda>g. a \<in> set (snd g)) (rev (action_groups container)) of
        None \<Rightarrow> Parser_itself
      | Some g \<Rightarrow> Group (index_of_title (fst g) (action_groups self)))"

fun add_actions :: "(action \<Rightarrow> container) \<Rightarrow> action list \<Rightarrow> parser \<Rightarrow> py_error + parser" where
  "add_actions group_map [] p = Inr p"
| "add_actions group_map (a # as) p =
     (case add_action (group_map a) a p of
        Inl e \<Rightarrow> Inl e
      | Inr p' \<Rightarrow> add_actions group_map as p')"

definition add_container_actions :: "parser \<Rightarrow> parser \<Rightarrow> py_error + parser" where
  "add_container_actions container self =
     (if \<not> distinct (map fst (action_groups self)) then Inl ValueError
      else
        let self' = fold merge_group (action_groups container) self
        in add_actions (group_of_action container self') (actions container) self')"

fun add_parents :: "parser list \<Rightarrow> parser \<Rightarrow> py_error + parser" where
  "add_parents [] p = Inr p"
| "add_parents (parent # parents) p =
     (case add_container_actions parent p of
        Inl e \<Rightarrow> Inl e
      | Inr p' \<Rightarrow> add_parents parents p')"

section \<open>TypedArgumentParser\<close>

text \<open>
  The constructor stores the class and runs the constructor of \<^verbatim>\<open>ArgumentParser\<close>: the two
  standard groups, the automatic help flag when asked for, then the parents.
\<close>

definition TypedArgumentParser :: "py_class \<Rightarrow> bool \<Rightarrow> parser list \<Rightarrow> py_error + parser" where
  "TypedArgumentParser cls add_help parents =
     (let self = \<lparr>name_space_class = cls, actions = [],
                  action_groups = [(''positional arguments'', []), (''options'', [])]\<rparr>
      in case (if add_help then add_help_argument Parser_itself self else Inr self) of
           Inl e \<Rightarrow> Inl e
         | Inr self' \<Rightarrow> add_parents parents self')"

section \<open>Instances of a dataclass\<close>






section \<open>Parsing\<close>






section \<open>TypedNamespace.get_parser\<close>

text \<open>
  The default of a field: the default factory is called; a \<open>TypeError\<close> of the call, which
  is also what calling \<open>MISSING\<close> raises when the field has no factory, is caught and the
  static default is taken instead.  Any other exception leaves \<open>get_parser\<close>.
\<close>

definition resolve_default :: "field \<Rightarrow> py_error + py_value" where
  "resolve_default f =
     (case field_default_factory f of
        NoFactory \<Rightarrow> Inr (field_default f)
      | Factory r \<Rightarrow>
         (case r of
            Inl e \<Rightarrow> if e = TypeError then Inr (field_default f) else Inl e
          | Inr v \<Rightarrow> Inr v))"

text \<open>The keyword arguments from the metadata: \<^verbatim>\<open>help\<close> and \<^verbatim>\<open>metavar\<close>.\<close>

definition metadata_kwargs :: "field \<Rightarrow> kwargs" where
  "metadata_kwargs f =
     (let kwargs = no_kwargs;
          help_comment = py_str (metadata_get (field_metadata f) ''help'');
          kwargs = (if help_comment \<noteq> [] then kwargs\<lparr>kw_help := Some help_comment\<rparr> else kwargs);
          metavar = py_str (metadata_get (field_metadata f) ''metavar'');
          kwargs = (if metavar \<noteq> [] then kwargs\<lparr>kw_metavar := Some metavar\<rparr> else kwargs)
      in kwargs)"

text \<open>The keyword arguments from the declared type: \<^verbatim>\<open>type\<close> and \<^verbatim>\<open>nargs\<close>.\<close>

definition type_kwargs :: "py_type \<Rightarrow> kwargs \<Rightarrow> py_error + kwargs" where
  "type_kwargs arg_type kwargs =
     (case get_origin arg_type of
        None \<Rightarrow> Inr (kwargs\<lparr>kw_type := Some arg_type\<rparr>)
      | Some type_origin \<Rightarrow>
          if type_origin = Origin_list \<or> type_origin = Origin_NonEmptyList
             \<or> type_origin = Origin_List
          then (case get_args arg_type of
                  [t] \<Rightarrow> Inr (kwargs\<lparr>kw_type := Some t,
                    kw_nargs := Some (if type_origin = Origin_NonEmptyList then ''+'' else ''*'')\<rparr>)
                | _ \<Rightarrow> Inl (NotImplementedError_type arg_type))
          else Inl (NotImplementedError_origin type_origin))"

text \<open>
  The keyword arguments from the default: \<^verbatim>\<open>required\<close>, or \<^verbatim>\<open>action\<close> without \<^verbatim>\<open>type\<close>, or the
  default in the help text.  \<^verbatim>\<open>kwargs.pop("type")\<close> raises \<open>KeyError\<close> when the key is absent.
\<close>

definition default_kwargs :: "py_value \<Rightarrow> kwargs \<Rightarrow> py_error + kwargs" where
  "default_kwargs default_value kwargs =
     (if default_value = REQUIRED_ARG then Inr (kwargs\<lparr>kw_required := Some True\<rparr>)
      else case default_value of
        VBool b \<Rightarrow>
          (let kwargs = kwargs\<lparr>kw_action := Some (if b then Store_false else Store_true)\<rparr> in
           case kw_type kwargs of
             None \<Rightarrow> Inl KeyError
           | Some _ \<Rightarrow> Inr (kwargs\<lparr>kw_type := None\<rparr>))
      | _ \<Rightarrow>
          Inr (kwargs\<lparr>kw_help :=
            Some ((case kw_help kwargs of None \<Rightarrow> [] | Some h \<Rightarrow> h)
                  @ '' default: '' @ py_str default_value)\<rparr>))"

text \<open>The body of the loop from the call of the factory to the call of \<^verbatim>\<open>add_argument\<close>.\<close>

definition field_kwargs :: "field \<Rightarrow> py_error + kwargs" where
  "field_kwargs f =
     (case resolve_default f of
        Inl e \<Rightarrow> Inl e
      | Inr default_value \<Rightarrow>
         (case type_kwargs (field_type f) (metadata_kwargs f) of
            Inl e \<Rightarrow> Inl e
          | Inr kwargs \<Rightarrow> default_kwargs default_value kwargs))"

fun add_fields :: "container \<Rightarrow> field list \<Rightarrow> parser \<Rightarrow> py_error + parser" where
  "add_fields grp [] p = Inr p"
| "add_fields grp (f # fs) p =
     (if field_name f = ''h'' \<or> field_name f = ''help'' then
        (case add_help_argument grp p of
           Inl e \<Rightarrow> Inl e
         | Inr p' \<Rightarrow> add_fields grp fs p')
      else if get_origin (field_type f) = Some Origin_ClassVar then add_fields grp fs p
      else
        (case field_kwargs f of
           Inl e \<Rightarrow> Inl e
         | Inr kwargs \<Rightarrow>
            (case add_argument grp [''--'' @ field_name f] kwargs p of
               Inl e \<Rightarrow> Inl e
             | Inr p' \<Rightarrow> add_fields grp fs p')))"

definition get_parser :: "py_class \<Rightarrow> string option \<Rightarrow> bool \<Rightarrow> py_error + parser" where
  "get_parser cls group_title add_help =
     (case TypedArgumentParser cls add_help [] of
        Inl e \<Rightarrow> Inl e
      | Inr ret_parser \<Rightarrow>
         (let (grp, ret_parser) =
                (case group_title of
                   None \<Rightarrow> (Parser_itself, ret_parser)
                 | Some title \<Rightarrow> add_argument_group title ret_parser)
          in add_fields grp (dataclasses_fields cls) ret_parser))"

section \<open>TypedNamespace.get_parser_grouped_by_parents\<close>

text \<open>The default of the parameter \<^verbatim>\<open>parent_name_to_group_name\<close>.\<close>

definition parent_name_to_group_name :: "string \<Rightarrow> string" where
  "parent_name_to_group_name pname = replace ''Args'' [] (replace ''Namespace'' [] pname)"

fun get_parsers :: "(string \<Rightarrow> string) \<Rightarrow> py_class list \<Rightarrow> py_error + parser list" where
  "get_parsers name_fn [] = Inr []"
| "get_parsers name_fn (parent # parents) =
     (case get_parser parent (Some (name_fn (cls_name parent))) False of
        Inl e \<Rightarrow> Inl e
      | Inr p \<Rightarrow>
         (case get_parsers name_fn parents of
            Inl e \<Rightarrow> Inl e
          | Inr ps \<Rightarrow> Inr (p # ps)))"

definition get_parser_grouped_by_parents ::
  "py_class \<Rightarrow> bool \<Rightarrow> (string \<Rightarrow> string) \<Rightarrow> py_error + parser" where
  "get_parser_grouped_by_parents cls add_help name_fn =
     (let parent_name_space_classes =
            filter (\<lambda>parent. issubclass parent TypedNamespace) (cls_bases cls)
      in case get_parsers name_fn parent_name_space_classes of
           Inl e \<Rightarrow> Inl e
         | Inr parent_parsers \<Rightarrow>
            (case TypedArgumentParser cls False parent_parsers of
               Inl e \<Rightarrow> Inl e
             | Inr ret_parser \<Rightarrow>
                 if add_help then
                   (let (help_group, ret_parser) = add_argument_group ''Help'' ret_parser
                    in add_help_argument help_group ret_parser)
                 else Inr ret_parser))"

section \<open>Notions used in the statements\<close>

text \<open>The action that the standard help flag becomes.\<close>

definition help_action :: action where
  "help_action = \<lparr>act_option_strings = [''-h'', ''--help''], act_dest = ''help'',
     act_class = HelpAction, act_nargs = Some (Nargs_int 0), act_type = None,
     act_required = False, act_help = Some ''show this help message and exit'',
     act_metavar = None, act_default = SUPPRESS\<rparr>"

text \<open>
  The action that an option string selects (\<^verbatim>\<open>_option_string_actions\<close> of \<^verbatim>\<open>argparse\<close>): the
  flag registered under that name.
\<close>

definition option_string_actions :: "parser \<Rightarrow> string \<Rightarrow> action option" where
  "option_string_actions p s = find (\<lambda>a. s \<in> set (act_option_strings a)) (actions p)"


text \<open>A field whose default factory raises \<open>TypeError\<close>, seen as \<open>get_parser\<close> sees it.\<close>

definition caught :: "field \<Rightarrow> field" where
  "caught f =
     (if field_default_factory f = Factory (Inl TypeError)
      then f\<lparr>field_default_factory := NoFactory\<rparr> else f)"

text \<open>What a parser is configured with: its actions and its groups.\<close>

definition configuration :: "parser \<Rightarrow> action list \<times> (string \<times> action list) list" where
  "configuration p = (actions p, action_groups p)"

text \<open>The failure that an unsupported parameterised type raises.\<close>

definition not_implemented :: "py_type \<Rightarrow> py_error" where
  "not_implemented t =
     (case get_origin t of
        None \<Rightarrow> NotImplementedError_type t
      | Some org \<Rightarrow>
          if org = Origin_list \<or> org = Origin_NonEmptyList \<or> org = Origin_List
          then NotImplementedError_type t else NotImplementedError_origin org)"

section \<open>The classes of the example in the docstring\<close>

text \<open>
  The fields \<^verbatim>\<open>a: int = 1\<close>, \<^verbatim>\<open>c: NonEmptyList[int]\<close> with the factory \<^verbatim>\<open>lambda: [1]\<close>,
  \<^verbatim>\<open>b: bool = False\<close> and \<^verbatim>\<open>d: str = REQUIRED_ARG\<close>, and the classes \<^verbatim>\<open>ArgsA\<close>, \<^verbatim>\<open>ArgsB\<close> and
  \<^verbatim>\<open>Args(ArgsA, ArgsB)\<close>.  The fields of \<^verbatim>\<open>Args\<close> are collected from its bases in the reverse
  of the method resolution order, those of \<^verbatim>\<open>ArgsB\<close> first.
\<close>

definition ex_a :: field where
  "ex_a = \<lparr>field_name = ''a'', field_type = Class ''int'', field_default = VInt 1,
     field_default_factory = NoFactory, field_metadata = []\<rparr>"

definition ex_c :: field where
  "ex_c = \<lparr>field_name = ''c'', field_type = Generic Origin_NonEmptyList [Class ''int''],
     field_default = MISSING, field_default_factory = Factory (Inr (VList [VInt 1])),
     field_metadata = [(''help'', VStr ''help for c.'')]\<rparr>"

definition ex_b :: field where
  "ex_b = \<lparr>field_name = ''b'', field_type = Class ''bool'', field_default = VBool False,
     field_default_factory = NoFactory, field_metadata = []\<rparr>"

definition ex_d :: field where
  "ex_d = \<lparr>field_name = ''d'', field_type = Class ''str'', field_default = REQUIRED_ARG,
     field_default_factory = NoFactory, field_metadata = [(''metavar'', VStr ''REQ_D'')]\<rparr>"

definition ArgsA :: py_class where
  "ArgsA = PyClass ''ArgsA'' [TypedNamespace] [ex_a, ex_c]"

definition ArgsB :: py_class where
  "ArgsB = PyClass ''ArgsB'' [TypedNamespace] [ex_b, ex_d]"

definition Args :: py_class where
  "Args = PyClass ''Args'' [ArgsA, ArgsB] [ex_b, ex_d, ex_a, ex_c]"




definition ex_m :: field where
  "ex_m = \<lparr>field_name = ''m'', field_type = Class ''int'', field_default = REQUIRED_ARG,
     field_default_factory = NoFactory,
     field_metadata = [(''help'', VInt 5), (''metavar'', VStr [])]\<rparr>"

definition ArgsM :: py_class where
  "ArgsM = PyClass ''ArgsM'' [TypedNamespace] [ex_m]"

definition ex_bad :: field where
  "ex_bad = \<lparr>field_name = ''x'', field_type = Generic Origin_list [Class ''int''],
     field_default = MISSING, field_default_factory = Factory (Inl TypeError),
     field_metadata = []\<rparr>"

definition ArgsBad :: py_class where
  "ArgsBad = PyClass ''ArgsBad'' [TypedNamespace] [ex_bad]"

definition ex_help_dict :: field where
  "ex_help_dict = \<lparr>field_name = ''help'',
     field_type = Generic (Origin_other ''dict'') [Class ''str'', Class ''int''],
     field_default = MISSING, field_default_factory = Factory (Inr (VObj ''{}'')),
     field_metadata = []\<rparr>"

definition ArgsHelpDict :: py_class where
  "ArgsHelpDict = PyClass ''ArgsHelpDict'' [TypedNamespace] [ex_help_dict]"

definition ex_dict :: field where
  "ex_dict = \<lparr>field_name = ''opts'',
     field_type = Generic (Origin_other ''dict'') [Class ''str'', Class ''int''],
     field_default = MISSING, field_default_factory = Factory (Inr (VObj ''{}'')),
     field_metadata = []\<rparr>"

definition ArgsDict :: py_class where
  "ArgsDict = PyClass ''ArgsDict'' [TypedNamespace] [ex_a, ex_dict]"






definition ex_help_list :: field where
  "ex_help_list = \<lparr>field_name = ''help'',
     field_type = Generic Origin_NonEmptyList [Class ''int''],
     field_default = MISSING, field_default_factory = Factory (Inr (VList [VInt 1])),
     field_metadata = []\<rparr>"

definition ArgsHelpList :: py_class where
  "ArgsHelpList = PyClass ''ArgsHelpList'' [TypedNamespace] [ex_help_list]"



text \<open>Two bases whose names give the same label, and a class that inherits from both.\<close>

definition AArgs :: py_class where
  "AArgs = PyClass ''AArgs'' [TypedNamespace] [ex_a]"

definition ANamespace :: py_class where
  "ANamespace = PyClass ''ANamespace'' [TypedNamespace] [ex_b]"

definition ArgsAA :: py_class where
  "ArgsAA = PyClass ''ArgsAA'' [AArgs, ANamespace] [ex_b, ex_a]"

section \<open>Registering actions\<close>

lemma make_help_action: "make_action [''-h'', ''--help''] help_kwargs = Inr help_action"
  by (simp add: make_action_def infer_dest_def help_kwargs_def no_kwargs_def help_action_def)

lemma make_action_option_strings:
  "make_action flags kw = Inr a \<Longrightarrow> act_option_strings a = flags"
  by (auto simp: make_action_def split: sum.splits option.splits action_name.splits if_splits)

lemma add_action_Inr:
  assumes "add_action c a p = Inr p'"
  shows "actions p' = actions p @ [a]"
    and "name_space_class p' = name_space_class p"
    and "set (act_option_strings a) \<inter> set (option_strings_of p) = {}"
    and "action_groups p' = (action_groups p)
           [group_index c := (fst (action_groups p ! group_index c),
                              snd (action_groups p ! group_index c) @ [a])]"
  using assms
  by (auto simp: add_action_def Let_def filter_empty_conv split: if_splits)

lemma add_action_option_strings:
  "add_action c a p = Inr p' \<Longrightarrow>
     option_strings_of p' = option_strings_of p @ act_option_strings a"
  by (simp add: add_action_Inr(1) option_strings_of_def)

lemma add_action_distinct:
  assumes "add_action c a p = Inr p'" "distinct (option_strings_of p)"
    "distinct (act_option_strings a)"
  shows "distinct (option_strings_of p')"
  using assms add_action_Inr(3)[OF assms(1)]
  by (auto simp: add_action_option_strings)

lemma add_argument_Inr:
  assumes "add_argument c flags kw p = Inr p'"
  obtains a where "make_action flags kw = Inr a" "add_action c a p = Inr p'"
  using assms by (auto simp: add_argument_def split: sum.splits)

lemma add_help_argument_Inr:
  "add_help_argument c p = Inr p' \<Longrightarrow> add_action c help_action p = Inr p'"
  by (simp add: add_help_argument_def add_argument_def make_help_action)

lemma find_distinct_concat:
  "distinct (concat (map g xs)) \<Longrightarrow> a \<in> set xs \<Longrightarrow> s \<in> set (g a) \<Longrightarrow>
     find (\<lambda>x. s \<in> set (g x)) xs = Some a"
proof (induction xs)
  case Nil
  then show ?case by simp
next
  case (Cons x xs)
  show ?case
  proof (cases "s \<in> set (g x)")
    case True
    with Cons.prems have "a = x" by auto
    with True show ?thesis by simp
  next
    case False
    with Cons show ?thesis by auto
  qed
qed

lemma option_string_actions_Some:
  "distinct (option_strings_of p) \<Longrightarrow> a \<in> set (actions p) \<Longrightarrow>
     s \<in> set (act_option_strings a) \<Longrightarrow> option_string_actions p s = Some a"
  unfolding option_string_actions_def option_strings_of_def
  by (rule find_distinct_concat)


section \<open>The loop over the fields\<close>

lemma add_fields_distinct:
  "add_fields grp fs p = Inr p' \<Longrightarrow> distinct (option_strings_of p) \<Longrightarrow>
     distinct (option_strings_of p')"
proof (induction fs arbitrary: p)
  case Nil
  then show ?case by simp
next
  case (Cons f fs)
  show ?case
  proof (cases "field_name f = ''h'' \<or> field_name f = ''help''")
    case True
    with Cons.prems(1) obtain q where q: "add_help_argument grp p = Inr q"
      and r: "add_fields grp fs q = Inr p'"
      by (auto split: sum.splits)
    from add_help_argument_Inr[OF q] Cons.prems(2) have "distinct (option_strings_of q)"
      by (rule add_action_distinct) (simp add: help_action_def)
    with r show ?thesis by (rule Cons.IH)
  next
    case False
    show ?thesis
    proof (cases "get_origin (field_type f) = Some Origin_ClassVar")
      case True
      with False Cons show ?thesis by simp
    next
      case cv: False
      with False Cons.prems(1) obtain kw q where
        q: "add_argument grp [''--'' @ field_name f] kw p = Inr q"
        and r: "add_fields grp fs q = Inr p'"
        by (auto split: sum.splits)
      from q obtain a where a: "make_action [''--'' @ field_name f] kw = Inr a"
        and aa: "add_action grp a p = Inr q"
        by (rule add_argument_Inr)
      from aa Cons.prems(2) have "distinct (option_strings_of q)"
        by (rule add_action_distinct) (simp add: make_action_option_strings[OF a])
      with r show ?thesis by (rule Cons.IH)
    qed
  qed
qed

lemma add_fields_actions_mono:
  "add_fields grp fs p = Inr p' \<Longrightarrow> set (actions p) \<subseteq> set (actions p')"
proof (induction fs arbitrary: p)
  case Nil
  then show ?case by simp
next
  case (Cons f fs)
  from Cons.prems show ?case
    by (auto split: if_splits sum.splits
        dest!: Cons.IH add_help_argument_Inr elim!: add_argument_Inr
        simp: add_action_Inr(1))
qed


lemma add_fields_registered:
  assumes "add_fields grp fs p = Inr p'" "f \<in> set fs"
    "field_name f \<noteq> ''h''" "field_name f \<noteq> ''help''"
    "get_origin (field_type f) \<noteq> Some Origin_ClassVar"
  shows "\<exists>kw a. field_kwargs f = Inr kw \<and> make_action [''--'' @ field_name f] kw = Inr a
           \<and> a \<in> set (actions p')"
  using assms(1,2)
proof (induction fs arbitrary: p)
  case Nil
  then show ?case by simp
next
  case (Cons g fs)
  show ?case
  proof (cases "g = f")
    case True
    with Cons.prems(1) assms(3-5) obtain kw q where
      kw: "field_kwargs f = Inr kw"
      and q: "add_argument grp [''--'' @ field_name f] kw p = Inr q"
      and r: "add_fields grp fs q = Inr p'"
      by (auto split: sum.splits)
    from q obtain a where a: "make_action [''--'' @ field_name f] kw = Inr a"
      and aa: "add_action grp a p = Inr q"
      by (rule add_argument_Inr)
    from aa have "a \<in> set (actions q)" by (simp add: add_action_Inr(1))
    with add_fields_actions_mono[OF r] have "a \<in> set (actions p')" by blast
    with kw a show ?thesis by blast
  next
    case False
    with Cons.prems(2) have "f \<in> set fs" by simp
    moreover from Cons.prems(1) obtain q where "add_fields grp fs q = Inr p'"
      by (auto split: if_splits sum.splits)
    ultimately show ?thesis by (rule Cons.IH[rotated])
  qed
qed



lemma TypedArgumentParser_no_parents:
  "TypedArgumentParser cls add_help [] =
     Inr \<lparr>name_space_class = cls,
          actions = (if add_help then [help_action] else []),
          action_groups = [(''positional arguments'', []),
                           (''options'', if add_help then [help_action] else [])]\<rparr>"
  by (simp add: TypedArgumentParser_def add_help_argument_def add_argument_def make_help_action
      add_action_def option_strings_of_def group_index_def)

lemma get_parser_Inr:
  assumes "get_parser cls group_title add_help = Inr p"
  obtains p0 where
    "add_fields (case group_title of None \<Rightarrow> Parser_itself | Some t \<Rightarrow> Group 2)
       (dataclasses_fields cls) p0 = Inr p"
    and "actions p0 = (if add_help then [help_action] else [])"
    and "name_space_class p0 = cls"
    and "action_groups p0 = [(''positional arguments'', []),
           (''options'', if add_help then [help_action] else [])]
           @ (case group_title of None \<Rightarrow> [] | Some t \<Rightarrow> [(t, [])])"
proof (cases group_title)
  case None
  with assms that show ?thesis
    by (simp add: get_parser_def TypedArgumentParser_no_parents)
next
  case (Some t)
  with assms that show ?thesis
    by (simp add: get_parser_def TypedArgumentParser_no_parents add_argument_group_def
        numeral_2_eq_2)
qed

lemma get_parser_distinct:
  assumes "get_parser cls group_title add_help = Inr p"
  shows "distinct (option_strings_of p)"
proof -
  from assms obtain grp p0 where af: "add_fields grp (dataclasses_fields cls) p0 = Inr p"
    and a0: "actions p0 = (if add_help then [help_action] else [])"
    by (rule get_parser_Inr) blast
  from a0 have "distinct (option_strings_of p0)"
    by (simp add: option_strings_of_def help_action_def)
  with af show ?thesis by (rule add_fields_distinct)
qed

lemma dataclasses_fields_not_classvar:
  "f \<in> set (dataclasses_fields cls) \<Longrightarrow> \<not> is_classvar (field_type f)"
  by (simp add: dataclasses_fields_def is_pseudo_field_def)

lemma get_parser_field_flag:
  assumes "get_parser cls group_title add_help = Inr p"
    and "f \<in> set (dataclasses_fields cls)"
    and "field_name f \<noteq> ''h''" "field_name f \<noteq> ''help''"
  obtains kw a where "field_kwargs f = Inr kw"
    and "make_action [''--'' @ field_name f] kw = Inr a"
    and "option_string_actions p (''--'' @ field_name f) = Some a"
proof -
  from assms(1) obtain grp p0 where af: "add_fields grp (dataclasses_fields cls) p0 = Inr p"
    by (rule get_parser_Inr) blast
  from dataclasses_fields_not_classvar[OF assms(2)]
  have "get_origin (field_type f) \<noteq> Some Origin_ClassVar"
    by (simp add: is_classvar_def)
  with af assms(2-4) obtain kw a where kw: "field_kwargs f = Inr kw"
    and a: "make_action [''--'' @ field_name f] kw = Inr a" and mem: "a \<in> set (actions p)"
    using add_fields_registered by blast
  from get_parser_distinct[OF assms(1)] mem
  have "option_string_actions p (''--'' @ field_name f) = Some a"
    by (rule option_string_actions_Some) (simp add: make_action_option_strings[OF a])
  with kw a show ?thesis by (rule that)
qed

section \<open>The actions that the loop adds\<close>



lemma type_kwargs_keeps:
  "type_kwargs t kw = Inr kw' \<Longrightarrow>
     kw_help kw' = kw_help kw \<and> kw_metavar kw' = kw_metavar kw \<and> kw_action kw' = kw_action kw
     \<and> kw_required kw' = kw_required kw"
  by (auto simp: type_kwargs_def split: option.splits if_splits list.splits)

lemma metadata_kwargs_simps:
  "kw_help (metadata_kwargs f) =
     (if py_str (metadata_get (field_metadata f) ''help'') = [] then None
      else Some (py_str (metadata_get (field_metadata f) ''help'')))"
  "kw_metavar (metadata_kwargs f) =
     (if py_str (metadata_get (field_metadata f) ''metavar'') = [] then None
      else Some (py_str (metadata_get (field_metadata f) ''metavar'')))"
  "kw_action (metadata_kwargs f) = None"
  "kw_required (metadata_kwargs f) = None"
  by (simp_all add: metadata_kwargs_def no_kwargs_def Let_def)

lemma field_kwargs_Inr:
  assumes "field_kwargs f = Inr kw"
  obtains d kw1 where "resolve_default f = Inr d"
    and "type_kwargs (field_type f) (metadata_kwargs f) = Inr kw1"
    and "default_kwargs d kw1 = Inr kw"
  using assms by (auto simp: field_kwargs_def split: sum.splits)

section \<open>Help text and display name\<close>

text \<open>
  C2, as amended: a field whose resolved default is neither the marker \<open>REQUIRED_ARG\<close> nor a
  boolean gets the help text of its metadata (the empty text when there is none) followed by
  \<^verbatim>\<open> default: \<close> and the default.
\<close>

theorem default_in_help:
  assumes "get_parser cls group_title add_help = Inr p"
    and "f \<in> set (dataclasses_fields cls)"
    and "field_name f \<noteq> ''h''" "field_name f \<noteq> ''help''"
    and "resolve_default f = Inr d"
    and "d \<noteq> REQUIRED_ARG" "\<not> is_bool d"
  shows "\<exists>a. option_string_actions p (''--'' @ field_name f) = Some a
           \<and> act_help a = Some (py_str (metadata_get (field_metadata f) ''help'')
                                  @ '' default: '' @ py_str d)"
proof -
  from assms(1-4) obtain kw a where kw: "field_kwargs f = Inr kw"
    and a: "make_action [''--'' @ field_name f] kw = Inr a"
    and look: "option_string_actions p (''--'' @ field_name f) = Some a"
    by (rule get_parser_field_flag)
  from kw assms(5) obtain kw1 where tk: "type_kwargs (field_type f) (metadata_kwargs f) = Inr kw1"
    and dk: "default_kwargs d kw1 = Inr kw"
    by (auto elim: field_kwargs_Inr)
  from type_kwargs_keeps[OF tk] have h1: "kw_help kw1 = kw_help (metadata_kwargs f)"
    and a1: "kw_action kw1 = None"
    by (simp_all add: metadata_kwargs_simps)
  from dk assms(6,7) a1 have "kw_action kw = None"
    and "kw_help kw = Some ((case kw_help kw1 of None \<Rightarrow> [] | Some h \<Rightarrow> h)
           @ '' default: '' @ py_str d)"
    by (auto simp: default_kwargs_def is_bool_def split: py_value.splits)
  with a h1 have "act_help a = Some (py_str (metadata_get (field_metadata f) ''help'')
      @ '' default: '' @ py_str d)"
    by (auto simp: make_action_def metadata_kwargs_simps split: sum.splits)
  with look show ?thesis by blast
qed

theorem default_in_help_witness:
  "\<not> isl (get_parser ArgsA None False) \<and> ex_c \<in> set (dataclasses_fields ArgsA)
   \<and> resolve_default ex_c = Inr (VList [VInt 1])
   \<and> (\<exists>a. option_string_actions (projr (get_parser ArgsA None False)) ''--c'' = Some a
           \<and> act_help a = Some ''help for c. default: [1]'')"
proof -
  have ok: "\<not> isl (get_parser ArgsA None False)" by code_simp
  then have p: "get_parser ArgsA None False = Inr (projr (get_parser ArgsA None False))"
    by simp
  have f: "ex_c \<in> set (dataclasses_fields ArgsA)" by code_simp
  have n: "field_name ex_c \<noteq> ''h''" "field_name ex_c \<noteq> ''help''" by (simp_all add: ex_c_def)
  have d: "resolve_default ex_c = Inr (VList [VInt 1])" by code_simp
  have s: "py_str (metadata_get (field_metadata ex_c) ''help'') @ '' default: ''
      @ py_str (VList [VInt 1]) = ''help for c. default: [1]''"
    by code_simp
  from default_in_help[OF p f n d] ok f d s show ?thesis
    by (simp add: ex_c_def is_bool_def)
qed

text \<open>
  C2 as it was stated fails for a boolean default: the flag \<^verbatim>\<open>--b\<close> of the example, whose
  default is \<^verbatim>\<open>False\<close>, has no help text at all.
\<close>

theorem bool_default_help_counterexample:
  "\<not> isl (get_parser ArgsB None False) \<and> ex_b \<in> set (dataclasses_fields ArgsB)
   \<and> resolve_default ex_b = Inr (VBool False) \<and> VBool False \<noteq> REQUIRED_ARG
   \<and> map_option act_help (option_string_actions (projr (get_parser ArgsB None False)) ''--b'')
       = Some None"
  by code_simp

text \<open>
  C10: the entries \<^verbatim>\<open>help\<close> and \<^verbatim>\<open>metavar\<close> of the metadata are read through \<^verbatim>\<open>str\<close>, and an
  entry whose text is empty is not attached: the display name of the flag is the text of
  \<^verbatim>\<open>metavar\<close> or absent, and its help text is the text of \<^verbatim>\<open>help\<close> or absent, unless the
  default is written into the help text.
\<close>

theorem metadata_entries_as_strings:
  assumes "get_parser cls group_title add_help = Inr p"
    and "f \<in> set (dataclasses_fields cls)"
    and "field_name f \<noteq> ''h''" "field_name f \<noteq> ''help''"
  shows "\<exists>a d. option_string_actions p (''--'' @ field_name f) = Some a
           \<and> resolve_default f = Inr d
           \<and> act_metavar a =
               (if py_str (metadata_get (field_metadata f) ''metavar'') = [] then None
                else Some (py_str (metadata_get (field_metadata f) ''metavar'')))
           \<and> act_help a =
               (if d = REQUIRED_ARG \<or> is_bool d
                then (if py_str (metadata_get (field_metadata f) ''help'') = [] then None
                      else Some (py_str (metadata_get (field_metadata f) ''help'')))
                else Some (py_str (metadata_get (field_metadata f) ''help'')
                           @ '' default: '' @ py_str d))"
proof -
  from assms(1-4) obtain kw a where kw: "field_kwargs f = Inr kw"
    and a: "make_action [''--'' @ field_name f] kw = Inr a"
    and look: "option_string_actions p (''--'' @ field_name f) = Some a"
    by (rule get_parser_field_flag)
  from kw obtain d kw1 where d: "resolve_default f = Inr d"
    and tk: "type_kwargs (field_type f) (metadata_kwargs f) = Inr kw1"
    and dk: "default_kwargs d kw1 = Inr kw"
    by (rule field_kwargs_Inr)
  from type_kwargs_keeps[OF tk] have k1: "kw_help kw1 = kw_help (metadata_kwargs f)"
    "kw_metavar kw1 = kw_metavar (metadata_kwargs f)"
    by simp_all
  from dk have mv: "kw_metavar kw = kw_metavar kw1"
    by (auto simp: default_kwargs_def Let_def split: if_splits py_value.splits option.splits)
  from a have am: "act_metavar a = kw_metavar kw" and ah: "act_help a = kw_help kw"
    by (auto simp: make_action_def split: sum.splits option.splits action_name.splits if_splits)
  from dk have "kw_help kw =
      (if d = REQUIRED_ARG \<or> is_bool d then kw_help kw1
       else Some ((case kw_help kw1 of None \<Rightarrow> [] | Some h \<Rightarrow> h) @ '' default: '' @ py_str d))"
    by (auto simp: default_kwargs_def is_bool_def Let_def
        split: if_splits py_value.splits option.splits)
  with k1 ah have "act_help a =
      (if d = REQUIRED_ARG \<or> is_bool d
       then (if py_str (metadata_get (field_metadata f) ''help'') = [] then None
             else Some (py_str (metadata_get (field_metadata f) ''help'')))
       else Some (py_str (metadata_get (field_metadata f) ''help'') @ '' default: '' @ py_str d))"
    by (simp add: metadata_kwargs_simps)
  moreover from am mv k1 have "act_metavar a =
      (if py_str (metadata_get (field_metadata f) ''metavar'') = [] then None
       else Some (py_str (metadata_get (field_metadata f) ''metavar'')))"
    by (simp add: metadata_kwargs_simps)
  ultimately show ?thesis using look d by blast
qed

theorem metadata_entries_as_strings_witness:
  "\<not> isl (get_parser ArgsM None False) \<and> ex_m \<in> set (dataclasses_fields ArgsM)
   \<and> metadata_get (field_metadata ex_m) ''help'' = VInt 5
   \<and> metadata_get (field_metadata ex_m) ''metavar'' = VStr []
   \<and> (\<exists>a. option_string_actions (projr (get_parser ArgsM None False)) ''--m'' = Some a
           \<and> act_metavar a = None \<and> act_help a = Some ''5'')"
proof -
  have ok: "\<not> isl (get_parser ArgsM None False)" by code_simp
  then have p: "get_parser ArgsM None False = Inr (projr (get_parser ArgsM None False))"
    by simp
  have f: "ex_m \<in> set (dataclasses_fields ArgsM)" by code_simp
  have n: "field_name ex_m \<noteq> ''h''" "field_name ex_m \<noteq> ''help''" by (simp_all add: ex_m_def)
  have d: "resolve_default ex_m = Inr REQUIRED_ARG" by code_simp
  have s: "py_str (metadata_get (field_metadata ex_m) ''help'') = ''5''"
    "py_str (metadata_get (field_metadata ex_m) ''metavar'') = []"
    "metadata_get (field_metadata ex_m) ''help'' = VInt 5"
    "metadata_get (field_metadata ex_m) ''metavar'' = VStr []"
    by code_simp+
  from metadata_entries_as_strings[OF p f n] ok f d s show ?thesis
    by (simp add: ex_m_def)
qed

section \<open>The class of the parser does not matter to the loop\<close>

lemma add_action_class:
  "add_action c a (p\<lparr>name_space_class := k\<rparr>)
     = map_sum id (name_space_class_update (\<lambda>_. k)) (add_action c a p)"
  by (simp add: add_action_def option_strings_of_def Let_def)

lemma add_argument_class:
  "add_argument c flags kw (p\<lparr>name_space_class := k\<rparr>)
     = map_sum id (name_space_class_update (\<lambda>_. k)) (add_argument c flags kw p)"
  by (simp add: add_argument_def add_action_class split: sum.splits)

lemma add_fields_class:
  "add_fields grp fs (p\<lparr>name_space_class := k\<rparr>)
     = map_sum id (name_space_class_update (\<lambda>_. k)) (add_fields grp fs p)"
proof (induction fs arbitrary: p)
  case Nil
  then show ?case by simp
next
  case (Cons f fs)
  show ?case
    by (cases "add_help_argument grp p"; cases "field_kwargs f";
        cases "add_argument grp [''--'' @ field_name f] (projr (field_kwargs f)) p")
       (simp_all add: Cons.IH add_help_argument_def add_argument_class)
qed

lemma add_fields_append:
  "add_fields grp (fs1 @ fs2) p =
     (case add_fields grp fs1 p of Inl e \<Rightarrow> Inl e | Inr q \<Rightarrow> add_fields grp fs2 q)"
  by (induction fs1 arbitrary: p) (simp_all split: sum.splits)

lemma get_parser_eq:
  "get_parser cls group_title add_help =
     add_fields (case group_title of None \<Rightarrow> Parser_itself | Some t \<Rightarrow> Group 2)
       (dataclasses_fields cls)
       \<lparr>name_space_class = cls,
        actions = (if add_help then [help_action] else []),
        action_groups = [(''positional arguments'', []),
           (''options'', if add_help then [help_action] else [])]
           @ (case group_title of None \<Rightarrow> [] | Some t \<Rightarrow> [(t, [])])\<rparr>"
  by (cases group_title)
     (simp_all add: get_parser_def TypedArgumentParser_no_parents add_argument_group_def
        numeral_2_eq_2)

lemma get_parser_fields:
  assumes "\<And>grp p. add_fields grp (dataclasses_fields cls) p
             = add_fields grp (dataclasses_fields cls') p"
  shows "map_sum id configuration (get_parser cls group_title add_help)
       = map_sum id configuration (get_parser cls' group_title add_help)"
proof -
  let ?p = "\<lambda>k. \<lparr>name_space_class = k,
        actions = (if add_help then [help_action] else []),
        action_groups = [(''positional arguments'', []),
           (''options'', if add_help then [help_action] else [])]
           @ (case group_title of None \<Rightarrow> [] | Some t \<Rightarrow> [(t, [])])\<rparr>"
  have "?p cls = (?p cls')\<lparr>name_space_class := cls\<rparr>" by simp
  then have "get_parser cls group_title add_help
      = map_sum id (name_space_class_update (\<lambda>_. cls)) (get_parser cls' group_title add_help)"
    unfolding get_parser_eq assms by (simp only: add_fields_class)
  then show ?thesis
    by (cases "get_parser cls' group_title add_help") (simp_all add: configuration_def)
qed

section \<open>Failures during construction\<close>

lemma resolve_default_caught: "resolve_default (caught f) = resolve_default f"
  by (simp add: caught_def resolve_default_def)

lemma field_kwargs_caught: "field_kwargs (caught f) = field_kwargs f"
proof -
  have eq: "field_type (caught f) = field_type f" "metadata_kwargs (caught f) = metadata_kwargs f"
    by (simp_all add: caught_def metadata_kwargs_def)
  show ?thesis
    unfolding field_kwargs_def resolve_default_caught eq ..
qed

lemma add_fields_caught: "add_fields grp (map caught fs) p = add_fields grp fs p"
proof (induction fs arbitrary: p)
  case Nil
  then show ?case by simp
next
  case (Cons f fs)
  have "field_name (caught f) = field_name f" "field_type (caught f) = field_type f"
    by (simp_all add: caught_def)
  with Cons.IH show ?case
    by (simp add: field_kwargs_caught split: sum.splits)
qed

lemma dataclasses_fields_caught:
  "dataclasses_fields (PyClass n bs (map caught fs))
     = map caught (dataclasses_fields (PyClass n bs fs))"
  by (induction fs) (simp_all add: dataclasses_fields_def caught_def)

text \<open>
  C1, as amended: a \<open>TypeError\<close> that the default factory of a field raises, a call with the
  wrong number of arguments included, does not leave \<open>get_parser\<close>.  It is caught, the
  static default of the field is taken as its default, and the parser is configured as
  for the class in which these fields have no default factory.
\<close>

theorem factory_TypeError_is_caught:
  "(field_default_factory f = Factory (Inl TypeError) \<longrightarrow>
      resolve_default f = Inr (field_default f))
   \<and> map_sum id configuration (get_parser (PyClass n bs (map caught fs)) group_title add_help)
     = map_sum id configuration (get_parser (PyClass n bs fs) group_title add_help)"
proof
  show "field_default_factory f = Factory (Inl TypeError) \<longrightarrow>
      resolve_default f = Inr (field_default f)"
    by (simp add: resolve_default_def)
  show "map_sum id configuration (get_parser (PyClass n bs (map caught fs)) group_title add_help)
     = map_sum id configuration (get_parser (PyClass n bs fs) group_title add_help)"
    by (rule get_parser_fields) (simp add: dataclasses_fields_caught add_fields_caught)
qed

theorem factory_TypeError_is_caught_witness:
  "field_default_factory ex_bad = Factory (Inl TypeError)
   \<and> resolve_default ex_bad = Inr MISSING
   \<and> map_sum id configuration (get_parser ArgsBad None False)
     = map_sum id configuration (get_parser
         (PyClass ''ArgsBad'' [TypedNamespace] [ex_bad\<lparr>field_default_factory := NoFactory\<rparr>])
         None False)"
proof -
  have c: "map caught [ex_bad] = [ex_bad\<lparr>field_default_factory := NoFactory\<rparr>]"
    by (simp add: caught_def ex_bad_def)
  from factory_TypeError_is_caught[of ex_bad "''ArgsBad''" "[TypedNamespace]" "[ex_bad]" None False]
  show ?thesis
    unfolding c by (simp add: ArgsBad_def) (simp add: ex_bad_def)
qed

text \<open>
  C1 as it was stated fails: the default factory of the only field of this class raises
  \<open>TypeError\<close>, and \<open>get_parser\<close> returns a parser, with the marker \<open>MISSING\<close> written into
  the help text as the default.
\<close>

theorem factory_TypeError_counterexample:
  "ex_bad \<in> set (dataclasses_fields ArgsBad)
   \<and> field_default_factory ex_bad = Factory (Inl TypeError)
   \<and> \<not> isl (get_parser ArgsBad None False)
   \<and> map_option act_help (option_string_actions (projr (get_parser ArgsBad None False)) ''--x'')
       = Some (Some '' default: <dataclasses._MISSING_TYPE object>'')"
  by code_simp

lemma type_kwargs_unsupported:
  assumes "get_origin t = Some org"
    and "\<not> ((org = Origin_list \<or> org = Origin_NonEmptyList \<or> org = Origin_List)
             \<and> length (get_args t) = 1)"
  shows "type_kwargs t kw = Inl (not_implemented t)"
proof (cases "org = Origin_list \<or> org = Origin_NonEmptyList \<or> org = Origin_List")
  case True
  with assms(2) have "length (get_args t) \<noteq> 1" by simp
  then have "(case get_args t of [x] \<Rightarrow> Inr (g x) | _ \<Rightarrow> Inl e) = Inl e" for g :: "py_type \<Rightarrow> kwargs" and e :: py_error
    by (cases "get_args t"; cases "tl (get_args t)") auto
  with True assms(1) show ?thesis
    by (auto simp: type_kwargs_def not_implemented_def)
next
  case False
  with assms(1) show ?thesis
    by (simp add: type_kwargs_def not_implemented_def)
qed

text \<open>
  C6, as amended: a field that is not named \<^verbatim>\<open>h\<close> or \<^verbatim>\<open>help\<close> and whose declared type is
  parameterised, but neither a list type with exactly one argument nor \<^verbatim>\<open>ClassVar\<close>, makes
  \<open>get_parser\<close> fail, so that no parser exists to parse any token.  The failure is the
  \<open>NotImplementedError\<close> of that type when nothing fails before it: the fields before it
  are translated without failure and its own default factory raises nothing but
  \<open>TypeError\<close>.
\<close>

theorem unsupported_type_fails:
  assumes "f \<in> set (dataclasses_fields cls)"
    and "field_name f \<noteq> ''h''" "field_name f \<noteq> ''help''"
    and "get_origin (field_type f) = Some org"
    and "\<not> ((org = Origin_list \<or> org = Origin_NonEmptyList \<or> org = Origin_List)
             \<and> length (get_args (field_type f)) = 1)"
  shows "isl (get_parser cls group_title add_help)
         \<and> (\<forall>fs1 fs2. dataclasses_fields cls = fs1 @ f # fs2
               \<and> \<not> isl (get_parser (PyClass (cls_name cls) (cls_bases cls) fs1) group_title add_help)
               \<and> \<not> isl (resolve_default f)
             \<longrightarrow> get_parser cls group_title add_help = Inl (not_implemented (field_type f)))"
proof
  have tk: "type_kwargs (field_type f) kw = Inl (not_implemented (field_type f))" for kw
    using assms(4,5) by (rule type_kwargs_unsupported)
  then have fk: "isl (field_kwargs f)"
    by (simp add: field_kwargs_def split: sum.splits)
  show "isl (get_parser cls group_title add_help)"
  proof (rule ccontr)
    assume "\<not> isl (get_parser cls group_title add_help)"
    then obtain p where "get_parser cls group_title add_help = Inr p"
      by (cases "get_parser cls group_title add_help") auto
    from this assms(1-3) obtain kw where "field_kwargs f = Inr kw"
      by (rule get_parser_field_flag)
    with fk show False by simp
  qed
  show "\<forall>fs1 fs2. dataclasses_fields cls = fs1 @ f # fs2
               \<and> \<not> isl (get_parser (PyClass (cls_name cls) (cls_bases cls) fs1) group_title add_help)
               \<and> \<not> isl (resolve_default f)
             \<longrightarrow> get_parser cls group_title add_help = Inl (not_implemented (field_type f))"
  proof (intro allI impI, elim conjE)
    fix fs1 fs2
    let ?pre = "PyClass (cls_name cls) (cls_bases cls) fs1"
    let ?g = "case group_title of None \<Rightarrow> Parser_itself | Some t \<Rightarrow> Group 2"
    let ?p = "\<lambda>k. \<lparr>name_space_class = k,
        actions = (if add_help then [help_action] else []),
        action_groups = [(''positional arguments'', []),
           (''options'', if add_help then [help_action] else [])]
           @ (case group_title of None \<Rightarrow> [] | Some t \<Rightarrow> [(t, [])])\<rparr>"
    assume split: "dataclasses_fields cls = fs1 @ f # fs2"
      and pre: "\<not> isl (get_parser ?pre group_title add_help)"
      and rd: "\<not> isl (resolve_default f)"
    have "\<forall>g \<in> set (dataclasses_fields cls). \<not> is_pseudo_field (field_type g)"
      by (simp add: dataclasses_fields_def)
    with split have "\<forall>g \<in> set fs1. \<not> is_pseudo_field (field_type g)"
      by simp
    then have "dataclasses_fields ?pre = fs1"
      by (simp add: dataclasses_fields_def)
    with pre have "\<not> isl (add_fields ?g fs1 (?p ?pre))"
      by (simp add: get_parser_eq)
    moreover have "?p cls = (?p ?pre)\<lparr>name_space_class := cls\<rparr>" by simp
    ultimately have "\<not> isl (add_fields ?g fs1 (?p cls))"
      by (cases "add_fields ?g fs1 (?p ?pre)") (simp_all only: add_fields_class, simp_all)
    then obtain q where q: "add_fields ?g fs1 (?p cls) = Inr q"
      by (cases "add_fields ?g fs1 (?p cls)") auto
    from rd obtain d where "resolve_default f = Inr d"
      by (cases "resolve_default f") auto
    with tk have "field_kwargs f = Inl (not_implemented (field_type f))"
      by (simp add: field_kwargs_def)
    moreover from dataclasses_fields_not_classvar[OF assms(1)]
    have "get_origin (field_type f) \<noteq> Some Origin_ClassVar"
      by (simp add: is_classvar_def)
    ultimately have "add_fields ?g (f # fs2) q = Inl (not_implemented (field_type f))"
      using assms(2,3) by simp
    with q show "get_parser cls group_title add_help = Inl (not_implemented (field_type f))"
      by (simp add: get_parser_eq split add_fields_append)
  qed
qed

theorem unsupported_type_fails_witness:
  "ex_dict \<in> set (dataclasses_fields ArgsDict)
   \<and> get_origin (field_type ex_dict) = Some (Origin_other ''dict'')
   \<and> dataclasses_fields ArgsDict = [ex_a] @ ex_dict # []
   \<and> \<not> isl (get_parser (PyClass ''ArgsDict'' [TypedNamespace] [ex_a]) None False)
   \<and> \<not> isl (resolve_default ex_dict)
   \<and> isl (get_parser ArgsDict None False)
   \<and> get_parser ArgsDict None False = Inl (NotImplementedError_origin (Origin_other ''dict''))"
proof -
  have f: "ex_dict \<in> set (dataclasses_fields ArgsDict)" by code_simp
  have n: "field_name ex_dict \<noteq> ''h''" "field_name ex_dict \<noteq> ''help''"
    by (simp_all add: ex_dict_def)
  have t: "get_origin (field_type ex_dict) = Some (Origin_other ''dict'')"
    by (simp add: ex_dict_def)
  have u: "\<not> ((Origin_other ''dict'' = Origin_list \<or> Origin_other ''dict'' = Origin_NonEmptyList
      \<or> Origin_other ''dict'' = Origin_List) \<and> length (get_args (field_type ex_dict)) = 1)"
    by simp
  have s: "dataclasses_fields ArgsDict = [ex_a] @ ex_dict # []" by code_simp
  have pre: "\<not> isl (get_parser (PyClass (cls_name ArgsDict) (cls_bases ArgsDict) [ex_a]) None False)"
    by code_simp
  have pre': "\<not> isl (get_parser (PyClass ''ArgsDict'' [TypedNamespace] [ex_a]) None False)"
    by code_simp
  have rd: "\<not> isl (resolve_default ex_dict)" by code_simp
  have ni: "not_implemented (field_type ex_dict) = NotImplementedError_origin (Origin_other ''dict'')"
    by code_simp
  from unsupported_type_fails[OF f n t u, of None False] s pre rd
  have "isl (get_parser ArgsDict None False)
      \<and> get_parser ArgsDict None False = Inl (not_implemented (field_type ex_dict))"
    by blast
  with f t s pre' rd ni show ?thesis by simp
qed

text \<open>
  C6 as it was stated fails: the only field of this class has the type
  \<^verbatim>\<open>Dict[str, int]\<close>, but it is named \<^verbatim>\<open>help\<close>, and \<open>get_parser\<close> returns a parser.
\<close>

theorem unsupported_type_counterexample:
  "ex_help_dict \<in> set (dataclasses_fields ArgsHelpDict)
   \<and> get_origin (field_type ex_help_dict) = Some (Origin_other ''dict'')
   \<and> \<not> isl (get_parser ArgsHelpDict None False)"
  by code_simp

section \<open>Parsing no token\<close>










section \<open>Composing the parsers of the parents\<close>

lemma add_actions_Inr:
  "add_actions group_map as p = Inr p' \<Longrightarrow>
     actions p' = actions p @ as \<and> name_space_class p' = name_space_class p
     \<and> map fst (action_groups p') = map fst (action_groups p)"
proof (induction as arbitrary: p)
  case Nil
  then show ?case by simp
next
  case (Cons a as)
  from Cons.prems obtain q where q: "add_action (group_map a) a p = Inr q"
    and r: "add_actions group_map as q = Inr p'"
    by (auto split: sum.splits)
  from add_action_Inr(4)[OF q] have "map fst (action_groups q) = map fst (action_groups p)"
    by (simp add: map_update) (metis list_update_id map_update)
  with Cons.IH[OF r] add_action_Inr(1,2)[OF q] show ?case by simp
qed

lemma fold_merge_group:
  "actions (fold merge_group gs p) = actions p
   \<and> name_space_class (fold merge_group gs p) = name_space_class p
   \<and> set (map fst (action_groups (fold merge_group gs p)))
       = set (map fst (action_groups p)) \<union> set (map fst gs)"
proof (induction gs arbitrary: p)
  case Nil
  then show ?case by simp
next
  case (Cons g gs)
  have "actions (merge_group g p) = actions p"
    "name_space_class (merge_group g p) = name_space_class p"
    "set (map fst (action_groups (merge_group g p)))
       = insert (fst g) (set (map fst (action_groups p)))"
    by (auto simp: merge_group_def add_argument_group_def)
  with Cons.IH[of "merge_group g p"] show ?case by auto
qed

lemma add_container_actions_Inr:
  assumes "add_container_actions container self = Inr self'"
  shows "actions self' = actions self @ actions container"
    and "name_space_class self' = name_space_class self"
    and "set (map fst (action_groups self'))
           = set (map fst (action_groups self)) \<union> set (map fst (action_groups container))"
proof -
  let ?s = "fold merge_group (action_groups container) self"
  from assms have "add_actions (group_of_action container ?s) (actions container) ?s = Inr self'"
    by (simp add: add_container_actions_def Let_def split: if_splits)
  from add_actions_Inr[OF this] fold_merge_group[of "action_groups container" self]
  show "actions self' = actions self @ actions container"
    and "name_space_class self' = name_space_class self"
    and "set (map fst (action_groups self'))
           = set (map fst (action_groups self)) \<union> set (map fst (action_groups container))"
    by simp_all
qed

lemma add_parents_Inr:
  "add_parents parents p = Inr p' \<Longrightarrow>
     actions p' = actions p @ concat (map actions parents)
     \<and> name_space_class p' = name_space_class p
     \<and> set (map fst (action_groups p'))
         = set (map fst (action_groups p)) \<union> (\<Union>parent \<in> set parents. set (map fst (action_groups parent)))"
proof (induction parents arbitrary: p)
  case Nil
  then show ?case by simp
next
  case (Cons parent parents)
  from Cons.prems obtain q where q: "add_container_actions parent p = Inr q"
    and r: "add_parents parents q = Inr p'"
    by (auto split: sum.splits)
  from Cons.IH[OF r] add_container_actions_Inr[OF q] show ?case by auto
qed

lemma TypedArgumentParser_parents:
  assumes "TypedArgumentParser cls False parents = Inr p"
  shows "actions p = concat (map actions parents)"
    and "name_space_class p = cls"
    and "set (map fst (action_groups p))
           = {''positional arguments'', ''options''}
             \<union> (\<Union>parent \<in> set parents. set (map fst (action_groups parent)))"
  using add_parents_Inr[of parents _ p] assms
  by (auto simp: TypedArgumentParser_def)

lemma get_parsers_Inr:
  "get_parsers name_fn parents = Inr ps \<Longrightarrow>
     list_all2 (\<lambda>parent p. get_parser parent (Some (name_fn (cls_name parent))) False = Inr p)
       parents ps"
  by (induction parents arbitrary: ps) (auto split: sum.splits)



lemma merge_group_class:
  "merge_group g (p\<lparr>name_space_class := k\<rparr>) = (merge_group g p)\<lparr>name_space_class := k\<rparr>"
  by (simp add: merge_group_def add_argument_group_def)

lemma fold_merge_group_class:
  "fold merge_group gs (p\<lparr>name_space_class := k\<rparr>)
     = (fold merge_group gs p)\<lparr>name_space_class := k\<rparr>"
  by (induction gs arbitrary: p) (simp_all add: merge_group_class)

lemma add_actions_class:
  "add_actions group_map as (p\<lparr>name_space_class := k\<rparr>)
     = map_sum id (name_space_class_update (\<lambda>_. k)) (add_actions group_map as p)"
proof (induction as arbitrary: p)
  case Nil
  then show ?case by simp
next
  case (Cons a as)
  show ?case
    by (cases "add_action (group_map a) a p") (simp_all add: add_action_class Cons.IH)
qed

lemma group_of_action_class:
  "group_of_action container (self\<lparr>name_space_class := k\<rparr>) = group_of_action container self"
  by (rule ext) (simp add: group_of_action_def cong: option.case_cong)

lemma add_container_actions_class:
  "add_container_actions container (self\<lparr>name_space_class := k\<rparr>)
     = map_sum id (name_space_class_update (\<lambda>_. k)) (add_container_actions container self)"
  by (simp add: add_container_actions_def Let_def fold_merge_group_class add_actions_class
      group_of_action_class)

lemma add_parents_class:
  "add_parents parents (p\<lparr>name_space_class := k\<rparr>)
     = map_sum id (name_space_class_update (\<lambda>_. k)) (add_parents parents p)"
proof (induction parents arbitrary: p)
  case Nil
  then show ?case by simp
next
  case (Cons parent parents)
  show ?case
    by (cases "add_container_actions parent p") (simp_all add: add_container_actions_class Cons.IH)
qed

lemma TypedArgumentParser_class:
  "TypedArgumentParser k False parents
     = map_sum id (name_space_class_update (\<lambda>_. k)) (TypedArgumentParser k' False parents)"
proof -
  let ?p = "\<lambda>c. \<lparr>name_space_class = c, actions = [],
      action_groups = [(''positional arguments'', []), (''options'', [])]\<rparr>"
  have "?p k = (?p k')\<lparr>name_space_class := k\<rparr>" by simp
  then show ?thesis
    unfolding TypedArgumentParser_def Let_def by (simp only: add_parents_class if_False sum.case)
qed

lemma add_argument_class_groups:
  "add_argument c flags kw (p\<lparr>name_space_class := k, action_groups := g\<rparr>)
     = map_sum id (name_space_class_update (\<lambda>_. k))
         (add_argument c flags kw (p\<lparr>action_groups := g\<rparr>))"
proof -
  have "p\<lparr>name_space_class := k, action_groups := g\<rparr>
      = p\<lparr>action_groups := g, name_space_class := k\<rparr>"
    by (cases p) simp
  then show ?thesis
    by (simp only: add_argument_class)
qed

lemma get_parser_grouped_by_parents_Inr:
  assumes "get_parser_grouped_by_parents cls add_help name_fn = Inr p"
  obtains ps q where
    "get_parsers name_fn (filter (\<lambda>parent. issubclass parent TypedNamespace) (cls_bases cls)) = Inr ps"
    and "TypedArgumentParser cls False ps = Inr q"
    and "\<not> add_help \<longrightarrow> p = q"
    and "add_help \<longrightarrow>
           add_action (Group (length (action_groups q))) help_action
             (q\<lparr>action_groups := action_groups q @ [(''Help'', [])]\<rparr>) = Inr p"
  using assms
  by (auto simp: get_parser_grouped_by_parents_def Let_def add_argument_group_def
      split: sum.splits if_splits dest!: add_help_argument_Inr)

section \<open>The grouped parser\<close>

text \<open>
  C9: every flag of the composed parser is the help flag of the group \<^verbatim>\<open>Help\<close> or a flag of
  the parser built for a direct base that is a subclass of \<open>TypedNamespace\<close>, and the
  configuration of the composed parser is the same whatever fields the class itself has.
\<close>

theorem own_fields_do_not_contribute:
  "(\<forall>p a. get_parser_grouped_by_parents (PyClass n bs fs) add_help name_fn = Inr p
       \<and> a \<in> set (actions p) \<longrightarrow>
       (add_help \<and> a = help_action)
       \<or> (\<exists>parent \<in> set bs. issubclass parent TypedNamespace
             \<and> (\<exists>pp. get_parser parent (Some (name_fn (cls_name parent))) False = Inr pp
                   \<and> a \<in> set (actions pp))))
   \<and> map_sum id configuration (get_parser_grouped_by_parents (PyClass n bs fs) add_help name_fn)
     = map_sum id configuration (get_parser_grouped_by_parents (PyClass n bs fs') add_help name_fn)"
proof
  show "\<forall>p a. get_parser_grouped_by_parents (PyClass n bs fs) add_help name_fn = Inr p
       \<and> a \<in> set (actions p) \<longrightarrow>
       (add_help \<and> a = help_action)
       \<or> (\<exists>parent \<in> set bs. issubclass parent TypedNamespace
             \<and> (\<exists>pp. get_parser parent (Some (name_fn (cls_name parent))) False = Inr pp
                   \<and> a \<in> set (actions pp)))"
  proof (intro allI impI, elim conjE)
    fix p a
    let ?parents = "filter (\<lambda>parent. issubclass parent TypedNamespace) bs"
    assume g: "get_parser_grouped_by_parents (PyClass n bs fs) add_help name_fn = Inr p"
      and a: "a \<in> set (actions p)"
    from g obtain ps q where ps: "get_parsers name_fn ?parents = Inr ps"
      and q: "TypedArgumentParser (PyClass n bs fs) False ps = Inr q"
      and nh: "\<not> add_help \<Longrightarrow> p = q"
      and h: "add_help \<Longrightarrow>
           add_action (Group (length (action_groups q))) help_action
             (q\<lparr>action_groups := action_groups q @ [(''Help'', [])]\<rparr>) = Inr p"
      by (rule get_parser_grouped_by_parents_Inr) auto
    have "actions p = actions q @ (if add_help then [help_action] else [])"
      using nh add_action_Inr(1)[OF h] by (cases add_help) simp_all
    with a TypedArgumentParser_parents(1)[OF q]
    have "(add_help \<and> a = help_action) \<or> (\<exists>pp \<in> set ps. a \<in> set (actions pp))"
      by (auto split: if_splits)
    moreover have "\<exists>parent \<in> set ?parents.
        get_parser parent (Some (name_fn (cls_name parent))) False = Inr pp"
      if "pp \<in> set ps" for pp
      using get_parsers_Inr[OF ps] that
      by (induction rule: list_all2_induct) auto
    ultimately show "(add_help \<and> a = help_action)
       \<or> (\<exists>parent \<in> set bs. issubclass parent TypedNamespace
             \<and> (\<exists>pp. get_parser parent (Some (name_fn (cls_name parent))) False = Inr pp
                   \<and> a \<in> set (actions pp)))"
      by fastforce
  qed
  have "get_parser_grouped_by_parents (PyClass n bs fs) add_help name_fn
      = map_sum id (name_space_class_update (\<lambda>_. PyClass n bs fs))
          (get_parser_grouped_by_parents (PyClass n bs fs') add_help name_fn)"
    unfolding get_parser_grouped_by_parents_def Let_def
      TypedArgumentParser_class[of "PyClass n bs fs" _ "PyClass n bs fs'"]
    by (cases "get_parsers name_fn (filter (\<lambda>parent. issubclass parent TypedNamespace) bs)";
        cases "TypedArgumentParser (PyClass n bs fs') False
          (projr (get_parsers name_fn (filter (\<lambda>parent. issubclass parent TypedNamespace) bs)))")
       (simp_all add: add_argument_group_def add_help_argument_def add_argument_class_groups)
  then show "map_sum id configuration (get_parser_grouped_by_parents (PyClass n bs fs) add_help name_fn)
     = map_sum id configuration (get_parser_grouped_by_parents (PyClass n bs fs') add_help name_fn)"
    by (cases "get_parser_grouped_by_parents (PyClass n bs fs') add_help name_fn")
       (simp_all add: configuration_def)
qed

theorem own_fields_do_not_contribute_witness:
  "\<not> isl (get_parser_grouped_by_parents Args True parent_name_to_group_name)
   \<and> map_sum id configuration (get_parser_grouped_by_parents Args True parent_name_to_group_name)
     = map_sum id configuration
         (get_parser_grouped_by_parents (PyClass ''Args'' [ArgsA, ArgsB] []) True
            parent_name_to_group_name)
   \<and> map act_option_strings
         (actions (projr (get_parser_grouped_by_parents
            (PyClass ''Args'' [ArgsA, ArgsB] []) True parent_name_to_group_name)))
       = [[''--a''], [''--c''], [''--b''], [''--d''], [''-h'', ''--help'']]"
proof -
  have ok: "\<not> isl (get_parser_grouped_by_parents Args True parent_name_to_group_name)"
    by code_simp
  have o: "map act_option_strings
         (actions (projr (get_parser_grouped_by_parents
            (PyClass ''Args'' [ArgsA, ArgsB] []) True parent_name_to_group_name)))
       = [[''--a''], [''--c''], [''--b''], [''--d''], [''-h'', ''--help'']]"
    by code_simp
  from own_fields_do_not_contribute[of "''Args''" "[ArgsA, ArgsB]" "[ex_b, ex_d, ex_a, ex_c]"
      True parent_name_to_group_name "[]"]
  have "map_sum id configuration (get_parser_grouped_by_parents Args True parent_name_to_group_name)
     = map_sum id configuration
         (get_parser_grouped_by_parents (PyClass ''Args'' [ArgsA, ArgsB] []) True
            parent_name_to_group_name)"
    unfolding Args_def by (rule conjunct2)
  with ok o show ?thesis by simp
qed

section \<open>Toggles and sequences\<close>





text \<open>
  C4, as amended: a field that is not named \<^verbatim>\<open>h\<close> or \<^verbatim>\<open>help\<close>, whose declared type is a list
  type (\<^verbatim>\<open>list\<close>, \<^verbatim>\<open>List\<close> or \<^verbatim>\<open>NonEmptyList\<close>) with exactly one argument and whose resolved
  default is not a boolean is passed to \<^verbatim>\<open>add_argument\<close> with that argument as the type and
  with the arity \<^verbatim>\<open>+\<close> for \<^verbatim>\<open>NonEmptyList\<close>, \<^verbatim>\<open>*\<close> otherwise, and in every parser that
  \<open>get_parser\<close> returns the flag of the field has this type and this arity.
\<close>

theorem sequence_type_flag:
  assumes "f \<in> set (dataclasses_fields cls)"
    and "field_name f \<noteq> ''h''" "field_name f \<noteq> ''help''"
    and "get_origin (field_type f) = Some org"
    and "org = Origin_list \<or> org = Origin_NonEmptyList \<or> org = Origin_List"
    and "get_args (field_type f) = [t]"
    and "resolve_default f = Inr d" "\<not> is_bool d"
  shows "(\<exists>kw. field_kwargs f = Inr kw \<and> kw_action kw = None \<and> kw_type kw = Some t
            \<and> kw_nargs kw = Some (if org = Origin_NonEmptyList then ''+'' else ''*''))
         \<and> (\<forall>p. get_parser cls group_title add_help = Inr p \<longrightarrow>
               (\<exists>a. option_string_actions p (''--'' @ field_name f) = Some a
                  \<and> act_class a = StoreAction
                  \<and> act_type a = Some t
                  \<and> act_nargs a =
                      Some (Nargs_str (if org = Origin_NonEmptyList then ''+'' else ''*''))))"
proof (intro conjI allI impI)
  let ?n = "if org = Origin_NonEmptyList then ''+'' else ''*''"
  from assms(4-6) obtain kw1 where tk: "type_kwargs (field_type f) (metadata_kwargs f) = Inr kw1"
    and kw1: "kw_type kw1 = Some t" "kw_nargs kw1 = Some ?n"
    by (auto simp: type_kwargs_def)
  from type_kwargs_keeps[OF tk] have a1: "kw_action kw1 = None"
    by (simp add: metadata_kwargs_simps)
  from assms(8) kw1 a1 obtain kw where dk: "default_kwargs d kw1 = Inr kw"
    and kw: "kw_action kw = None" "kw_type kw = Some t" "kw_nargs kw = Some ?n"
    by (auto simp: default_kwargs_def is_bool_def split: py_value.splits)
  from assms(7) tk dk have fk: "field_kwargs f = Inr kw"
    by (simp add: field_kwargs_def)
  with kw show "\<exists>kw. field_kwargs f = Inr kw \<and> kw_action kw = None \<and> kw_type kw = Some t
      \<and> kw_nargs kw = Some ?n"
    by blast
  show "\<exists>a. option_string_actions p (''--'' @ field_name f) = Some a
      \<and> act_class a = StoreAction \<and> act_type a = Some t
      \<and> act_nargs a = Some (Nargs_str ?n)"
    if p: "get_parser cls group_title add_help = Inr p" for p
  proof -
    from p assms(1-3) obtain kw' a where kw': "field_kwargs f = Inr kw'"
      and a: "make_action [''--'' @ field_name f] kw' = Inr a"
      and look: "option_string_actions p (''--'' @ field_name f) = Some a"
      by (rule get_parser_field_flag)
    from kw' fk have "kw' = kw" by simp
    with a kw have "act_class a = StoreAction \<and> act_type a = Some t
        \<and> act_nargs a = Some (Nargs_str ?n)"
      by (auto simp: make_action_def split: sum.splits)
    with look show ?thesis by blast
  qed
qed

theorem sequence_type_flag_witness:
  "ex_c \<in> set (dataclasses_fields ArgsA)
   \<and> get_origin (field_type ex_c) = Some Origin_NonEmptyList
   \<and> get_args (field_type ex_c) = [Class ''int'']
   \<and> resolve_default ex_c = Inr (VList [VInt 1])
   \<and> map_sum id kw_type (field_kwargs ex_c) = Inr (Some (Class ''int''))
   \<and> map_sum id kw_nargs (field_kwargs ex_c) = Inr (Some ''+'')
   \<and> \<not> isl (get_parser ArgsA (Some ''group A'') False)
   \<and> (\<exists>a. option_string_actions (projr (get_parser ArgsA (Some ''group A'') False)) ''--c''
             = Some a
           \<and> act_class a = StoreAction
           \<and> act_type a = Some (Class ''int'')
           \<and> act_nargs a = Some (Nargs_str ''+''))"
proof -
  have ok: "\<not> isl (get_parser ArgsA (Some ''group A'') False)" by code_simp
  then have p: "get_parser ArgsA (Some ''group A'') False
      = Inr (projr (get_parser ArgsA (Some ''group A'') False))"
    by simp
  have f: "ex_c \<in> set (dataclasses_fields ArgsA)" by code_simp
  have n: "field_name ex_c \<noteq> ''h''" "field_name ex_c \<noteq> ''help''" by (simp_all add: ex_c_def)
  have t: "get_origin (field_type ex_c) = Some Origin_NonEmptyList"
    "get_args (field_type ex_c) = [Class ''int'']"
    by (simp_all add: ex_c_def)
  have d: "resolve_default ex_c = Inr (VList [VInt 1])" by code_simp
  have b: "\<not> is_bool (VList [VInt 1])" by (simp add: is_bool_def)
  have nm: "field_name ex_c = ''c''" by (simp add: ex_c_def)
  have o: "Origin_NonEmptyList = Origin_list \<or> Origin_NonEmptyList = Origin_NonEmptyList
      \<or> Origin_NonEmptyList = Origin_List"
    by simp
  note T = sequence_type_flag[OF f n t(1) o t(2) d b, of "Some ''group A''" False]
  from conjunct1[OF T]
  have c1: "map_sum id kw_type (field_kwargs ex_c) = Inr (Some (Class ''int''))"
    "map_sum id kw_nargs (field_kwargs ex_c) = Inr (Some ''+'')"
    by auto
  from conjunct2[OF T, THEN spec, THEN mp, OF p] nm
  have c2: "\<exists>a. option_string_actions (projr (get_parser ArgsA (Some ''group A'') False)) ''--c''
             = Some a
           \<and> act_class a = StoreAction
           \<and> act_type a = Some (Class ''int'')
           \<and> act_nargs a = Some (Nargs_str ''+'')"
    by simp
  from f t d c1 ok c2 show ?thesis by (intro conjI)
qed

text \<open>
  C4 as it was stated fails: the only field of this class has the type
  \<^verbatim>\<open>NonEmptyList[int]\<close>, but it is named \<^verbatim>\<open>help\<close>; the only flag of the parser is the help
  flag, which has no type and takes no argument.
\<close>

theorem sequence_type_counterexample:
  "ex_help_list \<in> set (dataclasses_fields ArgsHelpList)
   \<and> get_origin (field_type ex_help_list) = Some Origin_NonEmptyList
   \<and> get_args (field_type ex_help_list) = [Class ''int'']
   \<and> \<not> isl (get_parser ArgsHelpList None False)
   \<and> actions (projr (get_parser ArgsHelpList None False)) = [help_action]
   \<and> act_type help_action = None
   \<and> act_nargs help_action = Some (Nargs_int 0)"
  by code_simp

section \<open>When a parser is returned\<close>




section \<open>The flags of a parser\<close>




section \<open>The groups of the composed parser\<close>












section \<open>The sections of the grouped parser\<close>



text \<open>
  With equal labels the flags of both bases are in the one group of that label, as the
  general statement says.
\<close>

lemma equal_labels_share_a_group:
  "map (\<lambda>parent. parent_name_to_group_name (cls_name parent)) (cls_bases ArgsAA) = [''A'', ''A'']
   \<and> map (\<lambda>g. (fst g, map act_option_strings (snd g)))
         (action_groups (projr (get_parser_grouped_by_parents ArgsAA False
            parent_name_to_group_name)))
       = [(''positional arguments'', []), (''options'', []), (''A'', [[''--a''], [''--b'']])]"
  by code_simp

end
